theory Spec2Isabelle
  imports Main
begin

section \<open>Express layer instrumentation: the data model\<close>

text \<open>
  The development embeds \<^verbatim>\<open>ExpressInstrumentation._applyPatch\<close> of
  \<^verbatim>\<open>opentelemetry-instrumentation-express/src/express.ts\<close>: the function that
  replaces a layer's \<^verbatim>\<open>handle\<close>, and the three closures it creates for every
  instrumented invocation (the patched handler, the \<^verbatim>\<open>onResponseFinish\<close> listener
  and the replaced continuation).

  JavaScript objects that the code mutates are fields of one explicit state, \<open>World\<close>,
  which every function takes and returns. The state holds one request, the spans the
  tracer has started, the log of calls made to the tracing API and to the clock (in
  program order), and one environment per instrumented invocation for the variables
  \<^verbatim>\<open>spanHasEnded\<close>, \<^verbatim>\<open>span\<close> and \<^verbatim>\<open>startTime\<close> that the closures share.
  Functions the code receives (the original handler, the original continuation) are HOL
  functions on the state; a handler that throws returns \<open>Throw\<close>.
\<close>

type_synonym HrTime = nat

text \<open>
  Modelled from the spec: \<^verbatim>\<open>types.ts\<close> is not among the sources. The layer type
  tags and the attribute keys are the ones \<^verbatim>\<open>express.ts\<close> names
  (\<^verbatim>\<open>ExpressLayerType.REQUEST_HANDLER\<close>, \<^verbatim>\<open>ExpressLayerType.MIDDLEWARE\<close>,
  \<^verbatim>\<open>AttributeNames.COMPONENT\<close>, ...), with the router tag of the spec.
\<close>

datatype ExpressLayerType = ROUTER | MIDDLEWARE | REQUEST_HANDLER

datatype AttributeNames = COMPONENT | HTTP_ROUTE | EXPRESS_TYPE | EXPRESS_NAME

datatype AttributeValue = AttrString string | AttrType ExpressLayerType | AttrUndefined

type_synonym Attributes = "AttributeNames \<rightharpoonup> AttributeValue"

record LayerMetadata =
  md_attributes :: Attributes
  md_name :: string

text \<open>A span handle of the tracing API: its name, its attributes, and the argument of
  every \<^verbatim>\<open>end\<close> call made on it, oldest first (\<open>None\<close> is a call without a time).\<close>

record Span =
  span_name :: string
  span_attributes :: Attributes
  end_calls :: "HrTime option list"

text \<open>The variables one instrumented invocation shares between its closures.\<close>

record Closure =
  spanHasEnded :: bool
  span_of :: nat
  startTime :: HrTime

datatype api_call =
    CallUpdateName string
  | CallStartSpan string
  | CallHrTime
  | CallEnd nat "HrTime option"

text \<open>
  The request: \<^verbatim>\<open>req.method\<close>, \<^verbatim>\<open>req.route\<close> (\<open>None\<close> when undefined), the
  path-segment sequence \<^verbatim>\<open>req[_LAYERS_STORE_PROPERTY]\<close>, and \<^verbatim>\<open>req.res\<close> (\<open>None\<close>
  when undefined) as the list of \<^verbatim>\<open>'finish'\<close> listeners registered on it, each the
  \<^verbatim>\<open>onResponseFinish\<close> of the invocation whose environment it names. A request on
  which the sequence was never created carries the empty sequence: the patched handler
  calls \<^verbatim>\<open>storeLayerPath\<close> before any read.
\<close>

record PatchedRequest =
  req_method :: string
  req_route :: "string option"
  req_layers_store :: "string list"
  req_res :: "nat list option"

record World =
  current_span :: "Span option"
  spans :: "nat \<Rightarrow> Span"
  span_count :: nat
  clock :: HrTime
  calls :: "api_call list"
  closures :: "nat \<Rightarrow> Closure"
  closure_count :: nat
  req :: PatchedRequest

datatype jsval = Undefined | Error string | Str string

datatype completion = Return jsval | Throw jsval

type_synonym callback = "jsval list \<Rightarrow> World \<Rightarrow> completion \<times> World"

datatype argument = Fun callback | Val jsval | ReqObj | ResObj

record JsFunction =
  fn_length :: nat
  fn_apply :: "argument list \<Rightarrow> World \<Rightarrow> completion \<times> World"

record ExpressLayer =
  layer_name :: string
  handle :: JsFunction
  kLayerPatched :: bool

text \<open>
  The collaborators imported from \<^verbatim>\<open>./utils\<close>, which is not among the sources, are
  parameters: \<^verbatim>\<open>getLayerMetadata(layer, layerPath)\<close> (given the layer's name) and
  \<^verbatim>\<open>isLayerIgnored(name, type, config)\<close>, beside the plugin's \<^verbatim>\<open>_config\<close>.
\<close>

record 'cfg Plugin =
  p_config :: 'cfg
  getLayerMetadata :: "string \<Rightarrow> string option \<Rightarrow> LayerMetadata"
  isLayerIgnored :: "string \<Rightarrow> AttributeValue option \<Rightarrow> 'cfg \<Rightarrow> bool"

section \<open>Arrays\<close>

fun Array_filter :: "('a \<Rightarrow> bool) \<Rightarrow> 'a list \<Rightarrow> 'a list" where
  "Array_filter p [] = []"
| "Array_filter p (x # xs) = (if p x then x # Array_filter p xs else Array_filter p xs)"

fun Array_join :: "string \<Rightarrow> string list \<Rightarrow> string" where
  "Array_join sep [] = []"
| "Array_join sep [x] = x"
| "Array_join sep (x # y # ys) = x @ sep @ Array_join sep (y # ys)"

text \<open>\<^verbatim>\<open>pop\<close> removes the last element; on the empty array it does nothing.\<close>

definition Array_pop :: "'a list \<Rightarrow> 'a list" where
  "Array_pop xs = butlast xs"

text \<open>\<^verbatim>\<open>args.findIndex(arg => typeof arg === 'function')\<close> together with the read
  \<^verbatim>\<open>args[callbackIdx]\<close>: the index of the first function and that function.\<close>

fun findIndex_function :: "argument list \<Rightarrow> (nat \<times> callback) option" where
  "findIndex_function [] = None"
| "findIndex_function (Fun f # as) = Some (0, f)"
| "findIndex_function (a # as) =
     (case findIndex_function as of None \<Rightarrow> None | Some (i, f) \<Rightarrow> Some (Suc i, f))"

section \<open>The tracing API and the clock\<close>

text \<open>
  The tracing collaborator (\<^verbatim>\<open>@opentelemetry/api\<close>, \<^verbatim>\<open>hrTime\<close> of
  \<^verbatim>\<open>@opentelemetry/core\<close>) is not among the sources. Each of its operations is
  modelled from the spec's description of the interface the wrapper consumes. The
  operations that start, rename or end a span and the reading of the clock append
  themselves to \<open>calls\<close>, so that the log is their program order; reading the ambient
  span and binding a callback change nothing and are not logged.
\<close>

text \<open>Modelled from the spec: \<^verbatim>\<open>tracer.getCurrentSpan\<close>, which is not among the
  sources, obtains the current ambient span, or none.\<close>

definition getCurrentSpan :: "World \<Rightarrow> Span option" where
  "getCurrentSpan w = current_span w"

text \<open>Modelled from the spec: \<^verbatim>\<open>span.updateName\<close>, which is not among the sources,
  renames a span; the patched handler calls it on the ambient span only.\<close>

definition updateName :: "string \<Rightarrow> World \<Rightarrow> World" where
  "updateName n w =
     w\<lparr>current_span := map_option (\<lambda>s. s\<lparr>span_name := n\<rparr>) (current_span w),
       calls := calls w @ [CallUpdateName n]\<rparr>"

text \<open>Modelled from the spec: \<^verbatim>\<open>tracer.startSpan\<close>, which is not among the sources,
  starts a new span given a name and an attribute mapping and returns a handle.\<close>

definition startSpan :: "string \<Rightarrow> Attributes \<Rightarrow> World \<Rightarrow> nat \<times> World" where
  "startSpan n attrs w =
     (span_count w,
      w\<lparr>spans := (spans w)(span_count w :=
             \<lparr>span_name = n, span_attributes = attrs, end_calls = []\<rparr>),
        span_count := Suc (span_count w),
        calls := calls w @ [CallStartSpan n]\<rparr>)"

text \<open>Modelled from the spec: \<^verbatim>\<open>hrTime\<close>, which is not among the sources, reads the
  clock.\<close>

definition hrTime :: "World \<Rightarrow> HrTime \<times> World" where
  "hrTime w = (clock w, w\<lparr>calls := calls w @ [CallHrTime]\<rparr>)"

text \<open>Modelled from the spec: \<^verbatim>\<open>span.end\<close>, which is not among the sources, ends a
  span given an optional explicit time. The model records every call, so that a second
  end of the same span is visible.\<close>

definition span_end :: "nat \<Rightarrow> HrTime option \<Rightarrow> World \<Rightarrow> World" where
  "span_end s t w =
     w\<lparr>spans := (spans w)(s := (spans w s)\<lparr>end_calls := end_calls (spans w s) @ [t]\<rparr>),
       calls := calls w @ [CallEnd s t]\<rparr>"

text \<open>Modelled from the spec: \<^verbatim>\<open>tracer.bind\<close>, which is not among the sources, binds
  a callback to the ambient tracing context. The patched continuation binds and applies
  in one expression, so the context bound is the one already active when the callback
  runs.\<close>

definition tracer_bind :: "callback \<Rightarrow> callback" where
  "tracer_bind target = target"

section \<open>The path accumulator\<close>

text \<open>
  Modelled from the spec: \<^verbatim>\<open>storeLayerPath\<close> of \<^verbatim>\<open>./utils\<close> is not among the
  sources. It pushes the mount-path fragment onto the request's path-segment sequence,
  also when the fragment is undefined, which is then an empty contribution.
\<close>

definition storeLayerPath :: "PatchedRequest \<Rightarrow> string option \<Rightarrow> PatchedRequest" where
  "storeLayerPath request v =
     request\<lparr>req_layers_store := req_layers_store request @
        [case v of None \<Rightarrow> [] | Some p \<Rightarrow> p]\<rparr>"

text \<open>The reconstructed route, lines 204 to 206.\<close>

definition route_of :: "string list \<Rightarrow> string" where
  "route_of store = Array_join [] (Array_filter (\<lambda>path. path \<noteq> ''/'') store)"

text \<open>The spec's wording of the same value: the concatenation, in order, of all
  segments that are not \<^verbatim>\<open>"/"\<close>.\<close>

definition spec_route :: "string list \<Rightarrow> string" where
  "spec_route store = concat (filter (\<lambda>s. s \<noteq> ''/'') store)"

section \<open>The closures of one instrumented invocation\<close>

definition set_spanHasEnded :: "nat \<Rightarrow> bool \<Rightarrow> World \<Rightarrow> World" where
  "set_spanHasEnded cid b w =
     w\<lparr>closures := (closures w)(cid := (closures w cid)\<lparr>spanHasEnded := b\<rparr>)\<rparr>"

text \<open>\<^verbatim>\<open>req.res?.once('finish', onResponseFinish)\<close> and
  \<^verbatim>\<open>req.res?.removeListener('finish', onResponseFinish)\<close>; the latter removes the
  listener registered last.\<close>

definition res_once_finish :: "nat \<Rightarrow> World \<Rightarrow> World" where
  "res_once_finish cid w =
     w\<lparr>req := (req w)\<lparr>req_res := map_option (\<lambda>ls. ls @ [cid]) (req_res (req w))\<rparr>\<rparr>"

definition res_removeListener_finish :: "nat \<Rightarrow> World \<Rightarrow> World" where
  "res_removeListener_finish cid w =
     w\<lparr>req := (req w)\<lparr>req_res :=
        map_option (\<lambda>ls. rev (remove1 cid (rev ls))) (req_res (req w))\<rparr>\<rparr>"

text \<open>The listener, lines 247 to 252.\<close>

definition onResponseFinish :: "nat \<Rightarrow> World \<Rightarrow> World" where
  "onResponseFinish cid w =
     (if spanHasEnded (closures w cid) = False then
        (let w1 = set_spanHasEnded cid True w
         in span_end (span_of (closures w1 cid)) (Some (startTime (closures w1 cid))) w1)
      else w)"

text \<open>\<^verbatim>\<open>arguments[0] instanceof Error\<close>.\<close>

fun first_is_Error :: "jsval list \<Rightarrow> bool" where
  "first_is_Error (Error m # as) = True"
| "first_is_Error as = False"

text \<open>The replaced continuation, lines 257 to 268: its own bookkeeping (lines 258 to
  265), then the call of the original continuation with the arguments it received.\<close>

definition next_bookkeeping :: "nat \<Rightarrow> jsval list \<Rightarrow> World \<Rightarrow> World" where
  "next_bookkeeping cid arguments w =
     (let w1 =
        (if spanHasEnded (closures w cid) = False then
           (let wa = set_spanHasEnded cid True w;
                wb = res_removeListener_finish cid wa
            in span_end (span_of (closures wb cid)) None wb)
         else w)
      in if \<not> (req_route (req w1) \<noteq> None \<and> first_is_Error arguments)
         then w1\<lparr>req := (req w1)\<lparr>req_layers_store := Array_pop (req_layers_store (req w1))\<rparr>\<rparr>
         else w1)"

definition patched_next :: "nat \<Rightarrow> callback \<Rightarrow> callback" where
  "patched_next cid callback = (\<lambda>arguments w.
     tracer_bind callback arguments (next_bookkeeping cid arguments w))"

section \<open>The patched handler\<close>

definition component :: string where
  "component = ''express''"

text \<open>The attributes of lines 207 to 210.\<close>

definition route_attributes :: "string \<Rightarrow> Attributes" where
  "route_attributes route =
     [COMPONENT \<mapsto> AttrString component,
      HTTP_ROUTE \<mapsto> (if length route > 0 then AttrString route else AttrUndefined)]"

text \<open>
  Lines 222 to 269: what an instrumented invocation does between the two bypass checks
  and the call of the original handler. It returns the environment of the invocation,
  the arguments with the continuation replaced, and the state.
\<close>

definition instrument ::
  "LayerMetadata \<Rightarrow> string \<Rightarrow> Attributes \<Rightarrow> argument list \<Rightarrow> World
     \<Rightarrow> nat \<times> argument list \<times> World" where
  "instrument metadata route attributes arguments w =
     (let w1 =
        (if md_attributes metadata EXPRESS_TYPE = Some (AttrType REQUEST_HANDLER) then
           (case getCurrentSpan w of
              Some parent \<Rightarrow> updateName (req_method (req w) @ '' '' @ route) w
            | None \<Rightarrow> w)
         else w);
        (span, w2) = startSpan (md_name metadata) (attributes ++ md_attributes metadata) w1;
        (start, w3) = hrTime w2;
        cid = closure_count w3;
        w4 = w3\<lparr>closures := (closures w3)(cid :=
                  \<lparr>spanHasEnded = False, span_of = span, startTime = start\<rparr>),
                closure_count := Suc cid\<rparr>;
        w5 =
        (if md_attributes metadata EXPRESS_TYPE \<noteq> Some (AttrType MIDDLEWARE) then
           set_spanHasEnded cid True (span_end span (Some start) w4)
         else w4);
        arguments' =
        (case findIndex_function arguments of
           Some (callbackIdx, callback) \<Rightarrow>
             arguments[callbackIdx := Fun (patched_next cid callback)]
         | None \<Rightarrow> arguments)
      in (cid, arguments', w5))"

text \<open>The function that replaces \<^verbatim>\<open>layer.handle\<close>, lines 197 to 279.\<close>

definition patched ::
  "'cfg Plugin \<Rightarrow> string \<Rightarrow> string option \<Rightarrow> JsFunction \<Rightarrow> argument list \<Rightarrow> World
     \<Rightarrow> completion \<times> World" where
  "patched plugin layer layerPath original arguments w =
     (let w1 = w\<lparr>req := storeLayerPath (req w) layerPath\<rparr>;
          route = route_of (req_layers_store (req w1));
          attributes = route_attributes route;
          metadata = getLayerMetadata plugin layer layerPath;
          type = md_attributes metadata EXPRESS_TYPE
      in if isLayerIgnored plugin (md_name metadata) type (p_config plugin) then
           fn_apply original arguments w1
         else if getCurrentSpan w1 = None then
           fn_apply original arguments w1
         else
           (let (cid, arguments', w2) = instrument metadata route attributes arguments w1;
                (result, w3) = fn_apply original arguments' w2
            in case result of
                 Throw e \<Rightarrow> (Throw e, w3)
               | Return v \<Rightarrow> (Return v, res_once_finish cid w3)))"

text \<open>The wrapper given to \<^verbatim>\<open>_wrap\<close>, lines 194 to 280: a handler of four parameters
  is returned as it is, any other is replaced by the patched handler, a function of the
  three parameters \<^verbatim>\<open>req\<close>, \<^verbatim>\<open>res\<close> and \<^verbatim>\<open>next\<close>.\<close>

definition handle_wrapper ::
  "'cfg Plugin \<Rightarrow> string \<Rightarrow> string option \<Rightarrow> JsFunction \<Rightarrow> JsFunction" where
  "handle_wrapper plugin layer layerPath original =
     (if fn_length original = 4 then original
      else \<lparr>fn_length = 3, fn_apply = patched plugin layer layerPath original\<rparr>)"

text \<open>Modelled from the spec: \<^verbatim>\<open>_wrap\<close> of the instrumentation base class, which is
  not among the sources, replaces the function in the named slot of the target by the
  wrapper's result for it; here the slot is the layer's \<^verbatim>\<open>handle\<close>.\<close>

definition wrap_handle :: "ExpressLayer \<Rightarrow> (JsFunction \<Rightarrow> JsFunction) \<Rightarrow> ExpressLayer" where
  "wrap_handle layer wrapper = layer\<lparr>handle := wrapper (handle layer)\<rparr>"

text \<open>\<^verbatim>\<open>_applyPatch\<close>, lines 189 to 281.\<close>

definition applyPatch :: "'cfg Plugin \<Rightarrow> ExpressLayer \<Rightarrow> string option \<Rightarrow> ExpressLayer" where
  "applyPatch plugin layer layerPath =
     (if kLayerPatched layer = True then layer
      else wrap_handle (layer\<lparr>kLayerPatched := True\<rparr>)
             (handle_wrapper plugin (layer_name layer) layerPath))"

section \<open>End sites and example requests\<close>

text \<open>
  The span of an invocation can be ended in the patched handler itself, by the
  \<^verbatim>\<open>'finish'\<close> listener and by the replaced continuation. After the handler has
  created the environment, only the last two can run, any number of times and in any
  order; \<open>fire_all\<close> runs such a sequence on the environment \<open>cid\<close>.
\<close>

datatype end_site = FinishListener | Continuation "jsval list"

fun fire :: "nat \<Rightarrow> end_site \<Rightarrow> World \<Rightarrow> World" where
  "fire cid FinishListener w = onResponseFinish cid w"
| "fire cid (Continuation arguments) w = next_bookkeeping cid arguments w"

fun fire_all :: "nat \<Rightarrow> end_site list \<Rightarrow> World \<Rightarrow> World" where
  "fire_all cid [] w = w"
| "fire_all cid (e # es) w = fire_all cid es (fire cid e w)"

text \<open>\<open>called_before a b cs\<close>: the call \<open>b\<close> is in the log \<open>cs\<close> and \<open>a\<close> occurs before
  its first occurrence.\<close>

definition called_before :: "api_call \<Rightarrow> api_call \<Rightarrow> api_call list \<Rightarrow> bool" where
  "called_before a b cs = (b \<in> set cs \<and> a \<in> set (takeWhile (\<lambda>c. c \<noteq> b) cs))"

text \<open>The calls an instrumented invocation makes before it calls the original handler.\<close>

definition instrument_calls :: "LayerMetadata \<Rightarrow> string \<Rightarrow> World \<Rightarrow> api_call list" where
  "instrument_calls metadata route w =
     (if md_attributes metadata EXPRESS_TYPE = Some (AttrType REQUEST_HANDLER)
         \<and> current_span w \<noteq> None
      then [CallUpdateName (req_method (req w) @ '' '' @ route)] else [])
     @ [CallStartSpan (md_name metadata), CallHrTime]
     @ (if md_attributes metadata EXPRESS_TYPE \<noteq> Some (AttrType MIDDLEWARE)
        then [CallEnd (span_count w) (Some (clock w))] else [])"

text \<open>
  A classifier for the examples: it tags a layer by its name, \<^verbatim>\<open>router\<close> as a router,
  \<^verbatim>\<open>bound dispatch\<close> as a request handler and any other as a middleware. The example
  plugin ignores no layer.
\<close>

definition example_classifier :: "string \<Rightarrow> string option \<Rightarrow> LayerMetadata" where
  "example_classifier name layerPath =
     (if name = ''router'' then
        \<lparr>md_attributes = [EXPRESS_TYPE \<mapsto> AttrType ROUTER], md_name = ''router''\<rparr>
      else if name = ''bound dispatch'' then
        \<lparr>md_attributes = [EXPRESS_TYPE \<mapsto> AttrType REQUEST_HANDLER],
          md_name = ''request handler''\<rparr>
      else
        \<lparr>md_attributes = [EXPRESS_TYPE \<mapsto> AttrType MIDDLEWARE],
          md_name = ''middleware - '' @ name\<rparr>)"

definition example_plugin :: "unit Plugin" where
  "example_plugin =
     \<lparr>p_config = (), getLayerMetadata = example_classifier,
      isLayerIgnored = (\<lambda>name type config. False)\<rparr>"

definition http_span :: Span where
  "http_span = \<lparr>span_name = ''HTTP GET'', span_attributes = Map.empty, end_calls = []\<rparr>"

definition traced_world :: World where
  "traced_world =
     \<lparr>current_span = Some http_span,
      spans = (\<lambda>s. \<lparr>span_name = [], span_attributes = Map.empty, end_calls = []\<rparr>),
      span_count = 0,
      clock = 100,
      calls = [],
      closures = (\<lambda>c. \<lparr>spanHasEnded = False, span_of = 0, startTime = 0\<rparr>),
      closure_count = 0,
      req = \<lparr>req_method = ''GET'', req_route = None, req_layers_store = [],
             req_res = Some []\<rparr>\<rparr>"

definition untraced_world :: World where
  "untraced_world = traced_world\<lparr>current_span := None\<rparr>"

text \<open>The continuation the framework passes to a layer, opaque here; a middleware that
  calls its continuation once, synchronously and without arguments; a handler that
  returns without calling it; an error-handling middleware of four parameters.\<close>

definition framework_next :: callback where
  "framework_next = (\<lambda>arguments w. (Return Undefined, w))"

definition calls_next :: JsFunction where
  "calls_next =
     \<lparr>fn_length = 3,
      fn_apply = (\<lambda>arguments w.
        case findIndex_function arguments of
          Some (i, next) \<Rightarrow> next [] w
        | None \<Rightarrow> (Return Undefined, w))\<rparr>"

definition sends_response :: JsFunction where
  "sends_response = \<lparr>fn_length = 3, fn_apply = (\<lambda>arguments w. (Return Undefined, w))\<rparr>"

definition error_middleware :: JsFunction where
  "error_middleware = \<lparr>fn_length = 4, fn_apply = (\<lambda>arguments w. (Return Undefined, w))\<rparr>"

definition logger_layer :: ExpressLayer where
  "logger_layer = \<lparr>layer_name = ''logger'', handle = calls_next, kLayerPatched = False\<rparr>"

text \<open>A router mounted at \<^verbatim>\<open>/items\<close> whose only route is \<^verbatim>\<open>/:id\<close>: the router's
  handler sets \<^verbatim>\<open>req.route\<close> and calls the route's layer with a continuation of its
  own.\<close>

definition items_route :: ExpressLayer where
  "items_route =
     applyPatch example_plugin
       \<lparr>layer_name = ''bound dispatch'', handle = sends_response, kLayerPatched = False\<rparr>
       (Some ''/:id'')"

definition items_router_handle :: JsFunction where
  "items_router_handle =
     \<lparr>fn_length = 3,
      fn_apply = (\<lambda>arguments w.
        fn_apply (handle items_route) [ReqObj, ResObj, Fun framework_next]
          (w\<lparr>req := (req w)\<lparr>req_route := Some ''/:id''\<rparr>\<rparr>))\<rparr>"

definition items_router :: ExpressLayer where
  "items_router =
     applyPatch example_plugin
       \<lparr>layer_name = ''router'', handle = items_router_handle, kLayerPatched = False\<rparr>
       (Some ''/items'')"

text \<open>The state in which the router mounted at \<^verbatim>\<open>/items\<close> calls the layer of its
  route: the router's fragment is on the sequence and \<^verbatim>\<open>req.route\<close> is set.\<close>

definition inside_items_router :: World where
  "inside_items_router =
     traced_world\<lparr>req := \<lparr>req_method = ''GET'', req_route = Some ''/:id'',
                           req_layers_store = [''/items''], req_res = Some []\<rparr>\<rparr>"

section \<open>Unfolding the model\<close>

lemmas tracer_defs = getCurrentSpan_def updateName_def startSpan_def hrTime_def span_end_def
  set_spanHasEnded_def

lemmas closure_defs = onResponseFinish_def next_bookkeeping_def patched_next_def
  tracer_bind_def res_once_finish_def res_removeListener_finish_def Array_pop_def

lemmas handler_defs = applyPatch_def wrap_handle_def handle_wrapper_def patched_def
  instrument_def storeLayerPath_def route_of_def route_attributes_def component_def

lemmas example_defs = example_plugin_def example_classifier_def traced_world_def
  untraced_world_def inside_items_router_def http_span_def framework_next_def calls_next_def
  sends_response_def error_middleware_def logger_layer_def items_router_def
  items_router_handle_def items_route_def

section \<open>The reconstructed route\<close>

lemma Array_filter_eq: "Array_filter p xs = filter p xs"
  by (induction xs) auto

lemma Array_join_empty_sep: "Array_join [] xs = concat xs"
  by (induction "[] :: string" xs rule: Array_join.induct) auto

text \<open>
  C2. In every state of the path-segment sequence the route computed by the patched
  handler (\<^verbatim>\<open>filter\<close>, then \<^verbatim>\<open>join('')\<close>) is the concatenation, in order, of the
  segments that are not \<^verbatim>\<open>"/"\<close>; it is empty when there is no such segment, and for
  \<^verbatim>\<open>["/api", "/users", "/:id"]\<close> it is \<^verbatim>\<open>"/api/users/:id"\<close>.
\<close>

theorem reconstructed_route:
  "route_of store = spec_route store
   \<and> (filter (\<lambda>s. s \<noteq> ''/'') store = [] \<longrightarrow> route_of store = [])
   \<and> route_of [''/api'', ''/users'', ''/:id''] = ''/api/users/:id''"
  by (simp add: route_of_def spec_route_def Array_filter_eq Array_join_empty_sep)

theorem reconstructed_route_witness:
  "filter (\<lambda>s. s \<noteq> ''/'') [''/'', ''/''] = [] \<and> route_of [''/'', ''/''] = []
   \<and> route_of [''/'', ''/api'', ''/'', ''/v1''] = ''/api/v1''"
  using reconstructed_route [of "[''/'', ''/'']"]
    reconstructed_route [of "[''/'', ''/api'', ''/'', ''/v1'']"]
  by (simp add: spec_route_def)

section \<open>The replaced continuation\<close>

text \<open>
  C1. Every invocation of the replaced continuation removes the last element of the
  request's path-segment sequence before it calls the original continuation, unless its
  first argument is an Error and the request has a matched route; then the sequence,
  and so its length, is unchanged.
\<close>

theorem continuation_pop_rule:
  "patched_next cid callback arguments w = callback arguments (next_bookkeeping cid arguments w)
   \<and> req_layers_store (req (next_bookkeeping cid arguments w)) =
       (if req_route (req w) \<noteq> None \<and> first_is_Error arguments
        then req_layers_store (req w)
        else butlast (req_layers_store (req w)))
   \<and> length (req_layers_store (req (next_bookkeeping cid arguments w))) =
       (if req_route (req w) \<noteq> None \<and> first_is_Error arguments
        then length (req_layers_store (req w))
        else length (req_layers_store (req w)) - 1)"
  by (simp add: closure_defs tracer_defs Let_def)

theorem continuation_pop_rule_witness:
  "req_layers_store (req (snd (patched_next 0 framework_next [Error ''boom'']
      inside_items_router))) = [''/items'']
   \<and> req_layers_store (req (snd (patched_next 0 framework_next [] inside_items_router))) = []
   \<and> req_layers_store (req (snd (patched_next 0 framework_next [Error ''boom'']
      (inside_items_router\<lparr>req := (req inside_items_router)\<lparr>req_route := None\<rparr>\<rparr>)))) = []"
  using continuation_pop_rule [of 0 framework_next "[Error ''boom'']" inside_items_router]
    continuation_pop_rule [of 0 framework_next "[]" inside_items_router]
    continuation_pop_rule [of 0 framework_next "[Error ''boom'']"
      "inside_items_router\<lparr>req := (req inside_items_router)\<lparr>req_route := None\<rparr>\<rparr>"]
  by (simp add: example_defs)

section \<open>Attaching the patch to a layer\<close>

text \<open>
  C6. Applying \<^verbatim>\<open>_applyPatch\<close> twice to a layer gives the layer that one application
  gives: the first application sets the marker, the second finds it set and returns the
  layer as it is. The handler of a layer that was not marked before is therefore the
  wrapper applied once to the original handler.
\<close>

theorem attach_twice_wraps_once:
  "applyPatch plugin (applyPatch plugin layer layerPath) layerPath' =
     applyPatch plugin layer layerPath
   \<and> kLayerPatched (applyPatch plugin layer layerPath)
   \<and> (\<not> kLayerPatched layer \<longrightarrow>
        handle (applyPatch plugin (applyPatch plugin layer layerPath) layerPath') =
          handle_wrapper plugin (layer_name layer) layerPath (handle layer))"
  by (simp add: applyPatch_def wrap_handle_def)

theorem attach_twice_wraps_once_witness:
  "\<not> kLayerPatched logger_layer
   \<and> handle (applyPatch example_plugin
        (applyPatch example_plugin logger_layer (Some ''/api'')) (Some ''/api'')) =
        \<lparr>fn_length = 3, fn_apply = patched example_plugin ''logger'' (Some ''/api'') calls_next\<rparr>
   \<and> span_count (snd (fn_apply (handle (applyPatch example_plugin
        (applyPatch example_plugin logger_layer (Some ''/api'')) (Some ''/api'')))
        [ReqObj, ResObj, Fun framework_next] traced_world)) = 1"
  using attach_twice_wraps_once [of example_plugin logger_layer "Some ''/api''" "Some ''/api''"]
  by (simp add: example_defs handler_defs closure_defs tracer_defs Let_def)

text \<open>
  C7. \<^verbatim>\<open>_applyPatch\<close> leaves a handler of four parameters in the layer's handler slot,
  so invoking the layer is invoking the original handler.
\<close>

theorem four_parameter_handler_unwrapped:
  "fn_length (handle layer) = 4 \<Longrightarrow>
     handle (applyPatch plugin layer layerPath) = handle layer
     \<and> fn_apply (handle (applyPatch plugin layer layerPath)) arguments w =
         fn_apply (handle layer) arguments w"
  by (simp add: applyPatch_def wrap_handle_def handle_wrapper_def)

theorem four_parameter_handler_unwrapped_witness:
  "fn_length (handle \<lparr>layer_name = ''onError'', handle = error_middleware,
      kLayerPatched = False\<rparr>) = 4
   \<and> handle (applyPatch example_plugin \<lparr>layer_name = ''onError'', handle = error_middleware,
        kLayerPatched = False\<rparr> None) = error_middleware
   \<and> span_count (snd (fn_apply (handle (applyPatch example_plugin
        \<lparr>layer_name = ''onError'', handle = error_middleware, kLayerPatched = False\<rparr> None))
        [Val (Error ''boom''), ReqObj, ResObj, Fun framework_next] traced_world)) = 0"
  using four_parameter_handler_unwrapped [of
      "\<lparr>layer_name = ''onError'', handle = error_middleware, kLayerPatched = False\<rparr>"
      example_plugin None "[Val (Error ''boom''), ReqObj, ResObj, Fun framework_next]"
      traced_world]
  by (simp add: example_defs)

section \<open>The patched handler: the two ways through it\<close>


text \<open>Any other invocation calls the original handler with the arguments and in the
  state that \<open>instrument\<close> returns, and registers the listener when the handler has
  returned.\<close>

lemma patched_instrumented:
  assumes "\<not> isLayerIgnored plugin (md_name (getLayerMetadata plugin layer layerPath))
       (md_attributes (getLayerMetadata plugin layer layerPath) EXPRESS_TYPE) (p_config plugin)"
    and "getCurrentSpan w = Some parent"
    and "instrument (getLayerMetadata plugin layer layerPath)
           (route_of (req_layers_store (storeLayerPath (req w) layerPath)))
           (route_attributes (route_of (req_layers_store (storeLayerPath (req w) layerPath))))
           arguments (w\<lparr>req := storeLayerPath (req w) layerPath\<rparr>) = (cid, arguments', w2)"
  shows "patched plugin layer layerPath original arguments w =
     (case fn_apply original arguments' w2 of
        (Throw e, w3) \<Rightarrow> (Throw e, w3)
      | (Return v, w3) \<Rightarrow> (Return v, res_once_finish cid w3))"
  using assms
  by (simp add: patched_def getCurrentSpan_def Let_def split: prod.splits completion.splits)

lemma instrument_cid: "fst (instrument metadata route attributes arguments w) = closure_count w"
  by (simp add: instrument_def tracer_defs Let_def split: option.splits)

lemma instrument_closure:
  "closures (snd (snd (instrument metadata route attributes arguments w))) (closure_count w) =
     \<lparr>spanHasEnded = (md_attributes metadata EXPRESS_TYPE \<noteq> Some (AttrType MIDDLEWARE)),
      span_of = span_count w, startTime = clock w\<rparr>"
  by (simp add: instrument_def tracer_defs Let_def split: option.splits)

lemma instrument_end_calls:
  "end_calls (spans (snd (snd (instrument metadata route attributes arguments w)))
      (span_count w)) =
     (if md_attributes metadata EXPRESS_TYPE \<noteq> Some (AttrType MIDDLEWARE)
      then [Some (clock w)] else [])"
  by (simp add: instrument_def tracer_defs Let_def split: option.splits)

lemma instrument_calls_log:
  "calls (snd (snd (instrument metadata route attributes arguments w))) =
     calls w @ instrument_calls metadata route w"
  by (auto simp add: instrument_def instrument_calls_def tracer_defs Let_def
      split: option.splits)

lemma instrument_current_span:
  "current_span (snd (snd (instrument metadata route attributes arguments w))) =
     (if md_attributes metadata EXPRESS_TYPE = Some (AttrType REQUEST_HANDLER)
      then map_option (\<lambda>parent. parent\<lparr>span_name := req_method (req w) @ '' '' @ route\<rparr>)
             (current_span w)
      else current_span w)"
  by (auto simp add: instrument_def tracer_defs Let_def split: option.splits)

lemma instrument_span_count:
  "span_count (snd (snd (instrument metadata route attributes arguments w))) =
     Suc (span_count w)"
  by (simp add: instrument_def tracer_defs Let_def split: option.splits)

section \<open>No ambient span\<close>




section \<open>Span creation and the start time\<close>

text \<open>
  C4, as the code has it. An invocation that reaches span creation calls
  \<^verbatim>\<open>startSpan\<close> first and reads the clock next: the start time it keeps is the
  reading taken directly after the span-creation call has returned, and before the
  original handler is called.
\<close>

theorem start_time_captured_after_span_creation:
  "calls (snd (snd (instrument metadata route attributes arguments w))) =
     calls w @ instrument_calls metadata route w
   \<and> called_before (CallStartSpan (md_name metadata)) CallHrTime
        (instrument_calls metadata route w)
   \<and> \<not> called_before CallHrTime (CallStartSpan (md_name metadata))
        (instrument_calls metadata route w)
   \<and> startTime (closures (snd (snd (instrument metadata route attributes arguments w)))
        (fst (instrument metadata route attributes arguments w))) = clock w"
  by (simp add: instrument_calls_log instrument_cid instrument_closure)
     (simp add: instrument_calls_def called_before_def)

theorem start_time_captured_after_span_creation_witness:
  "calls (snd (snd (instrument (example_classifier ''bound dispatch'' (Some ''/:id''))
      ''/items/:id'' (route_attributes ''/items/:id'') [ReqObj, ResObj, Fun framework_next]
      inside_items_router))) =
     [CallUpdateName ''GET /items/:id'', CallStartSpan ''request handler'', CallHrTime,
      CallEnd 0 (Some 100)]"
  using start_time_captured_after_span_creation [of
      "example_classifier ''bound dispatch'' (Some ''/:id'')" "''/items/:id''"
      "route_attributes ''/items/:id''" "[ReqObj, ResObj, Fun framework_next]"
      inside_items_router]
  by (simp add: instrument_calls_def example_defs)

text \<open>
  C4 as stated fails: for a middleware entered with an ambient span the calls are
  \<^verbatim>\<open>startSpan\<close>, \<^verbatim>\<open>hrTime\<close> and \<^verbatim>\<open>end\<close> in this order; the clock is not read before
  the span is created.
\<close>

theorem start_time_before_span_creation_counterexample:
  "calls (snd (fn_apply (handle (applyPatch example_plugin logger_layer (Some ''/api'')))
      [ReqObj, ResObj, Fun framework_next] traced_world)) =
     [CallStartSpan ''middleware - logger'', CallHrTime, CallEnd 0 None]
   \<and> \<not> called_before CallHrTime (CallStartSpan ''middleware - logger'')
        (calls (snd (fn_apply (handle (applyPatch example_plugin logger_layer (Some ''/api'')))
          [ReqObj, ResObj, Fun framework_next] traced_world)))"
  by (simp add: example_defs handler_defs closure_defs tracer_defs called_before_def Let_def)

text \<open>
  C8. An invocation that creates a span keeps the clock reading as its start time; when
  the layer's type is not \<^verbatim>\<open>middleware\<close> it ends the span at once with that time and
  sets the flag, and when the type is \<^verbatim>\<open>middleware\<close> the span has no end and the flag
  is not set when the original handler is called.
\<close>

theorem span_end_policy_by_layer_type:
  assumes "instrument metadata route attributes arguments w = (cid, arguments', w')"
  shows "span_count w' = Suc (span_count w) \<and> startTime (closures w' cid) = clock w
     \<and> (if md_attributes metadata EXPRESS_TYPE \<noteq> Some (AttrType MIDDLEWARE)
        then end_calls (spans w' (span_of (closures w' cid))) =
               [Some (startTime (closures w' cid))]
             \<and> spanHasEnded (closures w' cid)
        else end_calls (spans w' (span_of (closures w' cid))) = []
             \<and> \<not> spanHasEnded (closures w' cid))"
proof -
  have c: "cid = closure_count w"
    using assms instrument_cid [of metadata route attributes arguments w] by simp
  have w': "w' = snd (snd (instrument metadata route attributes arguments w))"
    using assms by simp
  show ?thesis
    unfolding c w'
    by (simp add: instrument_closure instrument_end_calls instrument_span_count)
qed

theorem span_end_policy_by_layer_type_witness:
  "end_calls (spans (snd (snd (instrument (example_classifier ''router'' (Some ''/items''))
      ''/items'' (route_attributes ''/items'') [ReqObj, ResObj, Fun framework_next]
      traced_world))) 0) = [Some 100]
   \<and> spanHasEnded (closures (snd (snd (instrument
        (example_classifier ''router'' (Some ''/items''))
        ''/items'' (route_attributes ''/items'') [ReqObj, ResObj, Fun framework_next]
        traced_world))) 0)
   \<and> end_calls (spans (snd (snd (instrument (example_classifier ''logger'' (Some ''/api''))
        ''/api'' (route_attributes ''/api'') [ReqObj, ResObj, Fun framework_next]
        traced_world))) 0) = []
   \<and> \<not> spanHasEnded (closures (snd (snd (instrument
        (example_classifier ''logger'' (Some ''/api''))
        ''/api'' (route_attributes ''/api'') [ReqObj, ResObj, Fun framework_next]
        traced_world))) 0)"
  using span_end_policy_by_layer_type [of
      "example_classifier ''router'' (Some ''/items'')" "''/items''"
      "route_attributes ''/items''" "[ReqObj, ResObj, Fun framework_next]" traced_world
      "fst (instrument (example_classifier ''router'' (Some ''/items''))
        ''/items'' (route_attributes ''/items'') [ReqObj, ResObj, Fun framework_next]
        traced_world)"
      "fst (snd (instrument (example_classifier ''router'' (Some ''/items''))
        ''/items'' (route_attributes ''/items'') [ReqObj, ResObj, Fun framework_next]
        traced_world))"
      "snd (snd (instrument (example_classifier ''router'' (Some ''/items''))
        ''/items'' (route_attributes ''/items'') [ReqObj, ResObj, Fun framework_next]
        traced_world))"]
    span_end_policy_by_layer_type [of
      "example_classifier ''logger'' (Some ''/api'')" "''/api''"
      "route_attributes ''/api''" "[ReqObj, ResObj, Fun framework_next]" traced_world
      "fst (instrument (example_classifier ''logger'' (Some ''/api''))
        ''/api'' (route_attributes ''/api'') [ReqObj, ResObj, Fun framework_next]
        traced_world)"
      "fst (snd (instrument (example_classifier ''logger'' (Some ''/api''))
        ''/api'' (route_attributes ''/api'') [ReqObj, ResObj, Fun framework_next]
        traced_world))"
      "snd (snd (instrument (example_classifier ''logger'' (Some ''/api''))
        ''/api'' (route_attributes ''/api'') [ReqObj, ResObj, Fun framework_next]
        traced_world))"]
  by (simp add: instrument_def tracer_defs example_defs Let_def)

section \<open>Ending the span\<close>

text \<open>
  C10. While the flag of an invocation is not set, its \<^verbatim>\<open>'finish'\<close> listener ends the
  span with the start time the invocation captured, and its replaced continuation ends
  the span without a time.
\<close>

theorem end_time_by_end_path:
  assumes "spanHasEnded (closures w cid) = False"
  shows "end_calls (spans (onResponseFinish cid w) (span_of (closures w cid))) =
           end_calls (spans w (span_of (closures w cid))) @ [Some (startTime (closures w cid))]
     \<and> calls (onResponseFinish cid w) =
           calls w @ [CallEnd (span_of (closures w cid)) (Some (startTime (closures w cid)))]
     \<and> end_calls (spans (next_bookkeeping cid arguments w) (span_of (closures w cid))) =
           end_calls (spans w (span_of (closures w cid))) @ [None]
     \<and> calls (next_bookkeeping cid arguments w) =
           calls w @ [CallEnd (span_of (closures w cid)) None]"
  using assms by (simp add: closure_defs tracer_defs Let_def)

theorem end_time_by_end_path_witness:
  "spanHasEnded (closures (snd (snd (instrument (example_classifier ''logger'' (Some ''/api''))
        ''/api'' (route_attributes ''/api'') [ReqObj, ResObj, Fun framework_next]
        traced_world))) 0) = False
   \<and> end_calls (spans (onResponseFinish 0
        (snd (snd (instrument (example_classifier ''logger'' (Some ''/api''))
          ''/api'' (route_attributes ''/api'') [ReqObj, ResObj, Fun framework_next]
          traced_world)))) 0) = [Some 100]
   \<and> end_calls (spans (next_bookkeeping 0 []
        (snd (snd (instrument (example_classifier ''logger'' (Some ''/api''))
          ''/api'' (route_attributes ''/api'') [ReqObj, ResObj, Fun framework_next]
          traced_world)))) 0) = [None]"
  using end_time_by_end_path [of
      "snd (snd (instrument (example_classifier ''logger'' (Some ''/api''))
        ''/api'' (route_attributes ''/api'') [ReqObj, ResObj, Fun framework_next]
        traced_world))" 0 "[]"]
  by (simp add: instrument_def closure_defs tracer_defs example_defs Let_def)

lemma fire_sets_flag: "spanHasEnded (closures (fire cid e w) cid)"
  by (cases e) (simp_all add: closure_defs tracer_defs Let_def)

lemma fire_when_ended:
  "spanHasEnded (closures w cid) \<Longrightarrow> spans (fire cid e w) = spans w"
  by (cases e) (simp_all add: closure_defs Let_def)

lemma fire_when_open:
  "\<not> spanHasEnded (closures w cid) \<Longrightarrow>
     length (end_calls (spans (fire cid e w) (span_of (closures w cid)))) =
       Suc (length (end_calls (spans w (span_of (closures w cid)))))"
  by (cases e) (simp_all add: closure_defs tracer_defs Let_def)

lemma fire_all_when_ended:
  "spanHasEnded (closures w cid) \<Longrightarrow> spans (fire_all cid es w) = spans w"
proof (induction es arbitrary: w)
  case Nil
  then show ?case by simp
next
  case (Cons e es)
  have "spans (fire_all cid es (fire cid e w)) = spans (fire cid e w)"
    by (rule Cons.IH) (rule fire_sets_flag)
  with Cons.prems show ?case by (simp add: fire_when_ended)
qed

lemma fire_all_after_first: "spans (fire_all cid (e # es) w) = spans (fire cid e w)"
  by (simp add: fire_all_when_ended fire_sets_flag)

text \<open>
  C5. Whatever sequence of \<^verbatim>\<open>'finish'\<close> listener runs and continuation calls follows
  an invocation that created a span, the span's \<^verbatim>\<open>end\<close> is called at most once: a span
  ended at once in the handler is never ended again, and otherwise the first of the two
  closures to run ends it and every later run leaves the spans as they are.
\<close>

theorem span_ended_at_most_once:
  assumes "instrument metadata route attributes arguments w = (cid, arguments', w')"
  shows "length (end_calls (spans (fire_all cid sites w') (span_of (closures w' cid)))) \<le> 1
     \<and> (spanHasEnded (closures w' cid) \<longrightarrow>
          end_calls (spans (fire_all cid sites w') (span_of (closures w' cid))) =
          end_calls (spans w' (span_of (closures w' cid))))
     \<and> length (end_calls (spans (fire_all cid (e # es) w') (span_of (closures w' cid)))) = 1
     \<and> end_calls (spans (fire_all cid (e # es) w') (span_of (closures w' cid))) =
          end_calls (spans (fire cid e w') (span_of (closures w' cid)))"
proof -
  have c: "cid = closure_count w"
    using assms instrument_cid [of metadata route attributes arguments w] by simp
  have w': "w' = snd (snd (instrument metadata route attributes arguments w))"
    using assms by simp
  have s: "span_of (closures w' cid) = span_count w"
    unfolding c w' by (simp add: instrument_closure)
  have flag: "spanHasEnded (closures w' cid) =
      (md_attributes metadata EXPRESS_TYPE \<noteq> Some (AttrType MIDDLEWARE))"
    unfolding c w' by (simp add: instrument_closure)
  have ends: "end_calls (spans w' (span_count w)) =
      (if md_attributes metadata EXPRESS_TYPE \<noteq> Some (AttrType MIDDLEWARE)
       then [Some (clock w)] else [])"
    unfolding w' by (rule instrument_end_calls)
  have one: "length (end_calls (spans (fire cid x w') (span_count w))) = 1" for x
  proof (cases "spanHasEnded (closures w' cid)")
    case True
    then show ?thesis using flag ends by (simp add: fire_when_ended)
  next
    case False
    then show ?thesis using fire_when_open [of w' cid x] flag ends s by simp
  qed
  have first: "length (end_calls (spans (fire_all cid (x # xs) w') (span_count w))) = 1"
    for x xs
    using one [of x] by (simp only: fire_all_after_first)
  have most: "length (end_calls (spans (fire_all cid sites w') (span_count w))) \<le> 1"
  proof (cases sites)
    case Nil
    then show ?thesis using ends by simp
  next
    case (Cons x xs)
    then show ?thesis using first [of x xs] by simp
  qed
  show ?thesis
    unfolding s using most first [of e es] by (simp add: fire_all_when_ended fire_sets_flag)
qed

theorem span_ended_at_most_once_witness:
  "end_calls (spans (fire_all 0 [Continuation [], FinishListener, Continuation [Error ''late'']]
      (snd (snd (instrument (example_classifier ''logger'' (Some ''/api''))
        ''/api'' (route_attributes ''/api'') [ReqObj, ResObj, Fun framework_next]
        traced_world)))) 0) = [None]
   \<and> end_calls (spans (fire_all 0 [FinishListener, Continuation [], FinishListener]
      (snd (snd (instrument (example_classifier ''logger'' (Some ''/api''))
        ''/api'' (route_attributes ''/api'') [ReqObj, ResObj, Fun framework_next]
        traced_world)))) 0) = [Some 100]"
  using span_ended_at_most_once [of
      "example_classifier ''logger'' (Some ''/api'')" "''/api''"
      "route_attributes ''/api''" "[ReqObj, ResObj, Fun framework_next]" traced_world
      "fst (instrument (example_classifier ''logger'' (Some ''/api''))
        ''/api'' (route_attributes ''/api'') [ReqObj, ResObj, Fun framework_next]
        traced_world)"
      "fst (snd (instrument (example_classifier ''logger'' (Some ''/api''))
        ''/api'' (route_attributes ''/api'') [ReqObj, ResObj, Fun framework_next]
        traced_world))"
      "snd (snd (instrument (example_classifier ''logger'' (Some ''/api''))
        ''/api'' (route_attributes ''/api'') [ReqObj, ResObj, Fun framework_next]
        traced_world))"
      "[Continuation [], FinishListener, Continuation [Error ''late'']]"
      "Continuation []" "[FinishListener, Continuation [Error ''late'']]"]
  by (simp add: instrument_def closure_defs tracer_defs example_defs Let_def)

section \<open>Renaming the root span\<close>

lemma storeLayerPath_method: "req_method (storeLayerPath request v) = req_method request"
  by (simp add: storeLayerPath_def)

text \<open>
  C9. In an invocation with an ambient span of a layer that is not ignored, the original
  handler is called in a state in which the ambient span carries the name
  \<^verbatim>\<open><method> <reconstructed route>\<close> when the layer's type is \<^verbatim>\<open>request handler\<close>, and
  is the ambient span as it was for any other type. For the router mounted at
  \<^verbatim>\<open>/items\<close> with the route \<^verbatim>\<open>/:id\<close>, the ambient span's name after a \<^verbatim>\<open>GET\<close> has
  been dispatched is \<^verbatim>\<open>GET /items/:id\<close>.
\<close>

theorem root_span_renamed_at_request_handler:
  assumes "getCurrentSpan w = Some parent"
    and "\<not> isLayerIgnored plugin (md_name (getLayerMetadata plugin layer layerPath))
       (md_attributes (getLayerMetadata plugin layer layerPath) EXPRESS_TYPE) (p_config plugin)"
  shows "(\<exists>cid arguments' w2.
        (\<forall>original. patched plugin layer layerPath original arguments w =
           (case fn_apply original arguments' w2 of
              (Throw e, w3) \<Rightarrow> (Throw e, w3)
            | (Return v, w3) \<Rightarrow> (Return v, res_once_finish cid w3)))
      \<and> current_span w2 =
          Some (if md_attributes (getLayerMetadata plugin layer layerPath) EXPRESS_TYPE =
                  Some (AttrType REQUEST_HANDLER)
                then parent\<lparr>span_name := req_method (req w) @ '' '' @
                       route_of (req_layers_store (storeLayerPath (req w) layerPath))\<rparr>
                else parent))
     \<and> map_option span_name (current_span (snd (fn_apply (handle items_router)
          [ReqObj, ResObj, Fun framework_next] traced_world))) = Some ''GET /items/:id''"
proof -
  let ?M = "getLayerMetadata plugin layer layerPath"
  let ?r = "route_of (req_layers_store (storeLayerPath (req w) layerPath))"
  let ?w1 = "w\<lparr>req := storeLayerPath (req w) layerPath\<rparr>"
  let ?I = "instrument ?M ?r (route_attributes ?r) arguments ?w1"
  have I: "?I = (fst ?I, fst (snd ?I), snd (snd ?I))"
    by simp
  have run: "patched plugin layer layerPath original arguments w =
      (case fn_apply original (fst (snd ?I)) (snd (snd ?I)) of
         (Throw e, w3) \<Rightarrow> (Throw e, w3)
       | (Return v, w3) \<Rightarrow> (Return v, res_once_finish (fst ?I) w3))" for original
    by (rule patched_instrumented [OF assms(2) assms(1) I])
  have cur: "current_span ?w1 = Some parent"
    using assms(1) by (simp add: getCurrentSpan_def)
  have name: "current_span (snd (snd ?I)) =
      Some (if md_attributes ?M EXPRESS_TYPE = Some (AttrType REQUEST_HANDLER)
            then parent\<lparr>span_name := req_method (req w) @ '' '' @ ?r\<rparr> else parent)"
    by (simp add: instrument_current_span cur storeLayerPath_method)
  have example: "map_option span_name (current_span (snd (fn_apply (handle items_router)
      [ReqObj, ResObj, Fun framework_next] traced_world))) = Some ''GET /items/:id''"
    by (simp add: example_defs handler_defs closure_defs tracer_defs
        Array_filter_eq Array_join_empty_sep Let_def)
  from run name example show ?thesis by blast
qed

theorem root_span_renamed_at_request_handler_witness:
  "getCurrentSpan inside_items_router = Some http_span
   \<and> req_layers_store (req inside_items_router) = [''/items'']
   \<and> map_option span_name (current_span (snd (patched example_plugin ''bound dispatch''
        (Some ''/:id'') sends_response [ReqObj, ResObj, Fun framework_next]
        inside_items_router))) = Some ''GET /items/:id''
   \<and> map_option span_name (current_span (snd (patched example_plugin ''logger''
        (Some ''/:id'') sends_response [ReqObj, ResObj, Fun framework_next]
        inside_items_router))) = Some ''HTTP GET''"
  using root_span_renamed_at_request_handler [of inside_items_router http_span example_plugin
      "''bound dispatch''" "Some ''/:id''" "[ReqObj, ResObj, Fun framework_next]"]
  by (simp add: example_defs handler_defs closure_defs tracer_defs
      Array_filter_eq Array_join_empty_sep Let_def)

end
